theory Spec2Isabelle
  imports Main "HOL-Library.Product_Lexorder"
begin

section \<open>Regular expressions of the validators\<close>

text \<open>
  The validators of \<^verbatim>\<open>validaciones.ts\<close> test their argument against a regular
  expression literal that is anchored at both ends (\<^verbatim>\<open>^...$\<close>, no flags), so
  \<^verbatim>\<open>regex.test(s)\<close> holds exactly when the whole string is a word of the
  expression. The expressions use character classes, concatenation, alternation,
  \<^verbatim>\<open>?\<close> and bounded repetition \<^verbatim>\<open>{n}\<close> only. They are kept as data and
  run by a derivative matcher.
\<close>

datatype regex =
    Nada
  | Eps
  | Clase "char list"
  | Sec regex regex
  | Alt regex regex
  | Opc regex

fun anulable :: "regex \<Rightarrow> bool" where
  "anulable Nada = False"
| "anulable Eps = True"
| "anulable (Clase cs) = False"
| "anulable (Sec r s) = (anulable r \<and> anulable s)"
| "anulable (Alt r s) = (anulable r \<or> anulable s)"
| "anulable (Opc r) = True"

fun derivada :: "char \<Rightarrow> regex \<Rightarrow> regex" where
  "derivada c Nada = Nada"
| "derivada c Eps = Nada"
| "derivada c (Clase cs) = (if c \<in> set cs then Eps else Nada)"
| "derivada c (Sec r s) =
     (if anulable r then Alt (Sec (derivada c r) s) (derivada c s)
      else Sec (derivada c r) s)"
| "derivada c (Alt r s) = Alt (derivada c r) (derivada c s)"
| "derivada c (Opc r) = derivada c r"

fun test :: "regex \<Rightarrow> string \<Rightarrow> bool" where
  "test r [] = anulable r"
| "test r (c # cs) = test (derivada c r) cs"

text \<open>\<^verbatim>\<open>r{n}\<close>: exactly \<open>n\<close> copies of \<open>r\<close> in sequence.\<close>

fun repetir :: "nat \<Rightarrow> regex \<Rightarrow> regex" where
  "repetir 0 r = Eps"
| "repetir (Suc n) r = Sec r (repetir n r)"

text \<open>\<^verbatim>\<open>\d\<close> and \<^verbatim>\<open>[0-9]\<close> (no unicode flag): the ten ASCII digits.\<close>

definition digitos :: "char list" where
  "digitos = ''0123456789''"

text \<open>\<^verbatim>\<open>/^\d{4}-\d{2}-\d{2}$/\<close>\<close>

definition regex_fecha :: regex where
  "regex_fecha =
     Sec (repetir 4 (Clase digitos))
      (Sec (Clase ''-'')
        (Sec (repetir 2 (Clase digitos))
          (Sec (Clase ''-'') (repetir 2 (Clase digitos)))))"

text \<open>\<^verbatim>\<open>/^([01]?[0-9]|2[0-3]):[0-5][0-9]$/\<close>\<close>

definition regex_hora :: regex where
  "regex_hora =
     Sec (Alt (Sec (Opc (Clase ''01'')) (Clase digitos))
              (Sec (Clase ''2'') (Clase ''0123'')))
      (Sec (Clase '':'')
        (Sec (Clase ''012345'') (Clase digitos)))"

text \<open>The words of an expression, as a set (the meaning the matcher is checked against).\<close>

fun lenguaje :: "regex \<Rightarrow> string set" where
  "lenguaje Nada = {}"
| "lenguaje Eps = {[]}"
| "lenguaje (Clase cs) = {[c] | c. c \<in> set cs}"
| "lenguaje (Sec r s) = {u @ v | u v. u \<in> lenguaje r \<and> v \<in> lenguaje s}"
| "lenguaje (Alt r s) = lenguaje r \<union> lenguaje s"
| "lenguaje (Opc r) = insert [] (lenguaje r)"

section \<open>Decimal fields\<close>

text \<open>
  The value of a run of ASCII digits, as both the JavaScript date parser and the
  database read the fields of a date or a time.
\<close>

definition valor_digito :: "char \<Rightarrow> nat" where
  "valor_digito c = of_char c - 48"

definition numero :: "string \<Rightarrow> nat" where
  "numero s = foldl (\<lambda>n c. 10 * n + valor_digito c) 0 s"

section \<open>validaciones.ts: format validators\<close>

text \<open>
  \<^verbatim>\<open>new Date(fecha)\<close> for a string of the date-only ISO form \<^verbatim>\<open>YYYY-MM-DD\<close>, on
  the V8 engine of Node.js, which runs this server code. V8 reads the three fields,
  requires the month in 1..12 and the day in 1..31, and does not compare the day with
  the length of the month: the day is added to the first day of the month
  (ECMAScript \<^verbatim>\<open>MakeDay\<close>), so a day past the end of the month rolls over into the
  next month. The result is a UTC instant in milliseconds; \<open>None\<close> is the Invalid Date
  (\<^verbatim>\<open>getTime()\<close> is NaN).
\<close>

text \<open>Days from 1970-01-01 to the first day of month \<open>m\<close> of year \<open>y\<close> (proleptic Gregorian).\<close>

definition dias_hasta_mes :: "int \<Rightarrow> int \<Rightarrow> int" where
  "dias_hasta_mes y m =
     (let y' = (if m \<le> 2 then y - 1 else y);
          era = y' div 400;
          yoe = y' - era * 400;
          doy = (153 * (if m > 2 then m - 3 else m + 9) + 2) div 5;
          doe = yoe * 365 + yoe div 4 - yoe div 100 + doy
      in era * 146097 + doe - 719468)"

definition MakeDay :: "int \<Rightarrow> int \<Rightarrow> int \<Rightarrow> int" where
  "MakeDay y m d = dias_hasta_mes y m + d - 1"

definition Date_parse_fecha :: "string \<Rightarrow> int option" where
  "Date_parse_fecha s =
     (let y = numero (take 4 s); m = numero (take 2 (drop 5 s)); d = numero (take 2 (drop 8 s))
      in if 1 \<le> m \<and> m \<le> 12 \<and> 1 \<le> d \<and> d \<le> 31
         then Some (MakeDay (int y) (int m) (int d) * 86400000)
         else None)"

text \<open>
  \<^verbatim>\<open>validarFormatoFecha\<close>: the regular expression, then \<^verbatim>\<open>new Date(fecha)\<close> must
  not be the Invalid Date. A string that passed the regular expression is of the
  date-only form, so \<open>Date_parse_fecha\<close> is the parse that runs.
\<close>

definition validarFormatoFecha :: "string \<Rightarrow> bool" where
  "validarFormatoFecha fecha =
     (if \<not> test regex_fecha fecha then False
      else (case Date_parse_fecha fecha of None \<Rightarrow> False | Some t \<Rightarrow> True))"

definition validarFormatoHora :: "string \<Rightarrow> bool" where
  "validarFormatoHora hora = test regex_hora hora"

section \<open>The environment of a call\<close>

text \<open>
  Everything outside the program that one tool call observes. The clock and the time zone
  belong to the JavaScript runtime, the identifier and the insertion time to the database
  defaults of \<^verbatim>\<open>setup-db.sql\<close> (\<^verbatim>\<open>gen_random_uuid()\<close>, \<^verbatim>\<open>NOW()\<close>), the last field to
  the mail transport.
  \<^item> \<open>Date_now\<close>: \<^verbatim>\<open>new Date()\<close>, in milliseconds since the epoch;
  \<^item> \<open>Date_parse\<close>: \<^verbatim>\<open>new Date(s)\<close> for a string that is not of the date-only form, such
    as \<^verbatim>\<open>`${fecha}T${hora}`\<close>, which is read in the local time zone (\<open>None\<close> is the
    Invalid Date);
  \<^item> \<open>setHours_0\<close>: the instant after \<^verbatim>\<open>setHours(0, 0, 0, 0)\<close>, local midnight of the
    day of the instant;
  \<^item> \<open>hoy_ISO\<close>: \<^verbatim>\<open>new Date().toISOString().split("T")[0]\<close>;
  \<^item> \<open>sendMail_ok\<close>: whether \<^verbatim>\<open>transporter.sendMail\<close> resolves (it rejects otherwise).
\<close>

record entorno =
  Date_now :: int
  Date_parse :: "string \<Rightarrow> int option"
  setHours_0 :: "int \<Rightarrow> int"
  hoy_ISO :: string
  gen_random_uuid :: string
  NOW :: int
  sendMail_ok :: bool

definition new_Date :: "entorno \<Rightarrow> string \<Rightarrow> int option" where
  "new_Date env s = (if test regex_fecha s then Date_parse_fecha s else Date_parse env s)"

section \<open>validaciones.ts: validators that read the clock\<close>

text \<open>
  A comparison with the Invalid Date is false (NaN), and \<^verbatim>\<open>setHours\<close> leaves the
  Invalid Date as it is.
\<close>

definition validarFechaFutura :: "entorno \<Rightarrow> string \<Rightarrow> bool" where
  "validarFechaFutura env fecha =
     (case new_Date env fecha of
        None \<Rightarrow> False
      | Some fechaTurno \<Rightarrow> setHours_0 env fechaTurno \<ge> setHours_0 env (Date_now env))"

definition validarFechaHoraFutura :: "entorno \<Rightarrow> string \<Rightarrow> string \<Rightarrow> bool" where
  "validarFechaHoraFutura env fecha hora =
     (case new_Date env (fecha @ ''T'' @ hora) of
        None \<Rightarrow> False
      | Some fechaHoraTurno \<Rightarrow> fechaHoraTurno > Date_now env)"

section \<open>setup-db.sql: the table turnos\<close>

datatype estado = confirmado | cancelado

text \<open>
  A value of the column type DATE is (year, month, day), one of type TIME is
  (hour, minute); the lexicographic order of the pairs is the order of the database.
\<close>

type_synonym pg_date = "nat \<times> nat \<times> nat"
type_synonym pg_time = "nat \<times> nat"

text \<open>\<^verbatim>\<open>NuevoTurno\<close> of \<^verbatim>\<open>turnos.ts\<close>: what the program sends, all text; \<open>estado\<close> is optional.\<close>

record NuevoTurno =
  fecha :: string
  hora :: string
  nombre_cliente :: string
  email :: string
  estado :: "estado option"

text \<open>
  A row of the table (\<^verbatim>\<open>Turno\<close>); the field \<^verbatim>\<open>id\<close> is called \<open>id_turno\<close> here.
  Identifiers are the text of a UUID and are compared as such; the program receives
  \<^verbatim>\<open>fecha\<close> and \<^verbatim>\<open>hora\<close> as the text of the column values kept here.
\<close>

record Turno =
  id_turno :: string
  fecha :: pg_date
  hora :: pg_time
  nombre_cliente :: string
  email :: string
  estado :: estado
  created_at :: int

definition bisiesto :: "nat \<Rightarrow> bool" where
  "bisiesto y = (y mod 4 = 0 \<and> (y mod 100 \<noteq> 0 \<or> y mod 400 = 0))"

definition dias_del_mes :: "nat \<Rightarrow> nat \<Rightarrow> nat" where
  "dias_del_mes y m =
     (if m = 2 then (if bisiesto y then 29 else 28)
      else if m = 4 \<or> m = 6 \<or> m = 9 \<or> m = 11 then 30 else 31)"

text \<open>
  A string names a real calendar day: it has the form \<^verbatim>\<open>YYYY-MM-DD\<close>, the month is
  1..12 and the day exists in that month of that year.
\<close>

definition fecha_real :: "string \<Rightarrow> bool" where
  "fecha_real s =
     (test regex_fecha s \<and>
      (let y = numero (take 4 s); m = numero (take 2 (drop 5 s)); d = numero (take 2 (drop 8 s))
       in 1 \<le> m \<and> m \<le> 12 \<and> 1 \<le> d \<and> d \<le> dias_del_mes y m))"

text \<open>
  Input conversion of the columns. The tools send only strings that the validators
  accepted, so only those shapes are converted here: a DATE from \<^verbatim>\<open>YYYY-MM-DD\<close>, which
  the database accepts when it is a real calendar day of a year from 1 on, and a TIME from
  \<^verbatim>\<open>H:MM\<close> or \<^verbatim>\<open>HH:MM\<close>. Any other string is answered with the conversion error.
\<close>

definition date_in :: "string \<Rightarrow> pg_date option" where
  "date_in s =
     (if fecha_real s \<and> 1 \<le> numero (take 4 s)
      then Some (numero (take 4 s), numero (take 2 (drop 5 s)), numero (take 2 (drop 8 s)))
      else None)"

definition time_in :: "string \<Rightarrow> pg_time option" where
  "time_in s =
     (if test regex_hora s
      then Some (numero (takeWhile (\<lambda>c. c \<noteq> CHR '':'') s),
                 numero (drop 1 (dropWhile (\<lambda>c. c \<noteq> CHR '':'') s)))
      else None)"

section \<open>The store: requests answered by the database\<close>

text \<open>
  The answer to a request of the Supabase client is an object with \<^verbatim>\<open>data\<close> and
  \<^verbatim>\<open>error\<close>; the program reads \<^verbatim>\<open>error.code\<close> and \<^verbatim>\<open>error.message\<close>.
\<close>

record PostgrestError =
  code :: string
  message :: string

record 'a PostgrestResponse =
  data :: "'a option"
  error :: "PostgrestError option"

datatype consulta = Insert | Select | Update

text \<open>
  The world a call runs in: the rows of the table, and the requests sent so far. The
  store is taken to be reachable: every request is answered by the database, with rows
  or with an error of the database.
\<close>

record mundo =
  tabla :: "Turno list"
  accesos :: "consulta list"

definition comillas :: "string \<Rightarrow> string" where
  "comillas s = [CHR 0x22] @ s @ [CHR 0x22]"

definition error_fecha :: "string \<Rightarrow> PostgrestError" where
  "error_fecha s =
     \<lparr>code = ''22008'', message = ''date/time field value out of range: '' @ comillas s\<rparr>"

definition error_hora :: "string \<Rightarrow> PostgrestError" where
  "error_hora s =
     \<lparr>code = ''22007'', message = ''invalid input syntax for type time: '' @ comillas s\<rparr>"

text \<open>Violation of a unique index (the primary key, or \<^verbatim>\<open>unique_turno_activo\<close>).\<close>

definition error_unico :: "string \<Rightarrow> PostgrestError" where
  "error_unico indice =
     \<lparr>code = ''23505'',
      message = ''duplicate key value violates unique constraint '' @ comillas indice\<rparr>"

text \<open>
  \<^verbatim>\<open>.single()\<close> asks for exactly one row; with none, or several, the answer is this
  error (\<^verbatim>\<open>obtenerTurnoPorId\<close> tests for its code).
\<close>

definition error_single :: PostgrestError where
  "error_single =
     \<lparr>code = ''PGRST116'', message = ''JSON object requested, multiple (or no) rows returned''\<rparr>"

definition respuesta_ok :: "'a \<Rightarrow> 'a PostgrestResponse" where
  "respuesta_ok x = \<lparr>data = Some x, error = None\<rparr>"

definition respuesta_error :: "PostgrestError \<Rightarrow> 'a PostgrestResponse" where
  "respuesta_error e = \<lparr>data = None, error = Some e\<rparr>"

definition anotar :: "consulta \<Rightarrow> mundo \<Rightarrow> mundo" where
  "anotar q w = w\<lparr>accesos := accesos w @ [q]\<rparr>"

text \<open>The confirmed rows of a slot: what the partial unique index \<^verbatim>\<open>unique_turno_activo\<close> ranges over.\<close>

definition confirmados_en :: "Turno list \<Rightarrow> pg_date \<Rightarrow> pg_time \<Rightarrow> Turno list" where
  "confirmados_en filas d h =
     filter (\<lambda>t. fecha t = d \<and> hora t = h \<and> estado t = confirmado) filas"

text \<open>
  \<^verbatim>\<open>from("turnos").insert({...}).select().single()\<close>: one atomic statement. The row gets
  its \<^verbatim>\<open>id\<close> and \<^verbatim>\<open>created_at\<close> from the column defaults; the primary key and the
  partial unique index are checked by the database, and a violation leaves the table as
  it was.
\<close>

definition fila_nueva :: "entorno \<Rightarrow> pg_date \<Rightarrow> pg_time \<Rightarrow> string \<Rightarrow> string \<Rightarrow> estado \<Rightarrow> Turno" where
  "fila_nueva env d h nombre correo est =
     \<lparr>id_turno = gen_random_uuid env, fecha = d, hora = h, nombre_cliente = nombre,
      email = correo, estado = est, created_at = NOW env\<rparr>"

definition pg_insert :: "entorno \<Rightarrow> NuevoTurno \<Rightarrow> estado \<Rightarrow> mundo \<Rightarrow> Turno PostgrestResponse \<times> mundo" where
  "pg_insert env n est w =
     (let w' = anotar Insert w in
      case date_in (NuevoTurno.fecha n) of
        None \<Rightarrow> (respuesta_error (error_fecha (NuevoTurno.fecha n)), w')
      | Some d \<Rightarrow>
         (case time_in (NuevoTurno.hora n) of
            None \<Rightarrow> (respuesta_error (error_hora (NuevoTurno.hora n)), w')
          | Some h \<Rightarrow>
             (let fila = fila_nueva env d h (NuevoTurno.nombre_cliente n) (NuevoTurno.email n) est
              in if gen_random_uuid env \<in> set (map id_turno (tabla w))
                 then (respuesta_error (error_unico ''turnos_pkey''), w')
                 else if est = confirmado \<and> confirmados_en (tabla w) d h \<noteq> []
                 then (respuesta_error (error_unico ''unique_turno_activo''), w')
                 else (respuesta_ok fila, w'\<lparr>tabla := tabla w @ [fila]\<rparr>))))"

text \<open>
  \<^verbatim>\<open>select("id").eq("fecha", fecha).eq("hora", hora).eq("estado", "confirmado").limit(1)\<close>
\<close>

definition pg_select_confirmado :: "string \<Rightarrow> string \<Rightarrow> mundo \<Rightarrow> string list PostgrestResponse \<times> mundo" where
  "pg_select_confirmado f h w =
     (let w' = anotar Select w in
      case date_in f of
        None \<Rightarrow> (respuesta_error (error_fecha f), w')
      | Some d \<Rightarrow>
         (case time_in h of
            None \<Rightarrow> (respuesta_error (error_hora h), w')
          | Some t \<Rightarrow> (respuesta_ok (take 1 (map id_turno (confirmados_en (tabla w) d t))), w')))"



definition ordenar :: "Turno list \<Rightarrow> Turno list" where
  "ordenar filas = sort_key (\<lambda>t. (fecha t, hora t)) filas"


text \<open>
  \<^verbatim>\<open>update({ estado: "cancelado" }).eq("id", turnoId).select().single()\<close>: the rows with
  that \<^verbatim>\<open>id\<close> are updated and returned; when they are not exactly one, the answer is
  the error of \<^verbatim>\<open>.single()\<close> and the statement is rolled back.
\<close>

definition pg_update_cancelado :: "string \<Rightarrow> mundo \<Rightarrow> Turno PostgrestResponse \<times> mundo" where
  "pg_update_cancelado turnoId w =
     (let w' = anotar Update w in
      case filter (\<lambda>t. id_turno t = turnoId) (tabla w) of
        [t] \<Rightarrow> (respuesta_ok (t\<lparr>estado := cancelado\<rparr>),
                w'\<lparr>tabla := map (\<lambda>u. if id_turno u = turnoId then u\<lparr>estado := cancelado\<rparr> else u)
                                (tabla w)\<rparr>)
      | _ \<Rightarrow> (respuesta_error error_single, w'))"


section \<open>turnos.ts\<close>

text \<open>
  An \<^verbatim>\<open>async\<close> function either returns a value or throws \<^verbatim>\<open>new Error(message)\<close>:
  \<open>Inl message\<close> is the rejection. Each function sends one request and then reads
  the answer.
\<close>

type_synonym 'a promesa = "string + 'a"

definition crearTurno :: "entorno \<Rightarrow> NuevoTurno \<Rightarrow> mundo \<Rightarrow> Turno option promesa \<times> mundo" where
  "crearTurno env turno w =
     (let (r, w') = pg_insert env turno
                      (case NuevoTurno.estado turno of None \<Rightarrow> confirmado | Some e \<Rightarrow> e) w
      in case error r of
           Some e \<Rightarrow> (Inl (''Error al crear turno: '' @ message e), w')
         | None \<Rightarrow> (Inr (data r), w'))"

text \<open>\<^verbatim>\<open>if (fechaDesde)\<close>: an absent or empty string adds no filter.\<close>

definition filtro :: "string option \<Rightarrow> string option" where
  "filtro a = (case a of None \<Rightarrow> None | Some s \<Rightarrow> if s = [] then None else Some s)"


definition verificarDisponibilidad :: "string \<Rightarrow> string \<Rightarrow> mundo \<Rightarrow> bool promesa \<times> mundo" where
  "verificarDisponibilidad f h w =
     (let (r, w') = pg_select_confirmado f h w
      in case error r of
           Some e \<Rightarrow> (Inl (''Error al verificar disponibilidad: '' @ message e), w')
         | None \<Rightarrow> (Inr (case data r of None \<Rightarrow> True | Some ids \<Rightarrow> length ids = 0), w'))"

text \<open>
  What \<^verbatim>\<open>cancelarTurno\<close> does with the answer: the test of \<^verbatim>\<open>error\<close> comes first,
  the test of \<^verbatim>\<open>!data\<close>, whose message carries the id, second.
\<close>

definition no_se_encontro :: "string \<Rightarrow> string" where
  "no_se_encontro turnoId =
     ''No se encontr'' @ [CHR 0xC3, CHR 0xB3] @ '' el turno con id: '' @ turnoId"

definition cancelarTurno_respuesta :: "string \<Rightarrow> Turno PostgrestResponse \<Rightarrow> Turno promesa" where
  "cancelarTurno_respuesta turnoId r =
     (case error r of
        Some e \<Rightarrow> Inl (''Error al cancelar turno: '' @ message e)
      | None \<Rightarrow> (case data r of None \<Rightarrow> Inl (no_se_encontro turnoId) | Some t \<Rightarrow> Inr t))"

definition cancelarTurno :: "string \<Rightarrow> mundo \<Rightarrow> Turno promesa \<times> mundo" where
  "cancelarTurno turnoId w =
     (let (r, w') = pg_update_cancelado turnoId w in (cancelarTurno_respuesta turnoId r, w'))"



section \<open>email.ts\<close>

text \<open>
  \<^verbatim>\<open>enviarEmailConfirmacion\<close> awaits \<^verbatim>\<open>transporter.sendMail\<close> inside
  \<^verbatim>\<open>try\<close>: it returns true when the mail was handed over and false, from the
  \<^verbatim>\<open>catch\<close>, when the transport failed. It never throws.
\<close>

definition enviarEmailConfirmacion :: "entorno \<Rightarrow> string \<Rightarrow> string \<Rightarrow> string \<Rightarrow> string \<Rightarrow> string \<Rightarrow> bool" where
  "enviarEmailConfirmacion env correo nombre f h turnoId =
     (if sendMail_ok env then True else False)"

section \<open>tools.ts\<close>

text \<open>
  The text of a result is one of the template literals of the tools. A constructor stands
  for one template and carries the interpolated values in the order of their first
  occurrence (the templates are quoted here without their accents and opening
  exclamation mark):
  \<^item> \<open>FormatoFechaInvalido\<close>: \<^verbatim>\<open>La fecha "${fecha}" no tiene un formato valido. Por favor usa el formato YYYY-MM-DD (ejemplo: 2024-12-25).\<close>;
  \<^item> \<open>FormatoFechaInvalidoLista\<close>: the same without the example (\<^verbatim>\<open>listarTurnos\<close>);
  \<^item> \<open>FormatoHoraInvalido\<close>: \<^verbatim>\<open>La hora "${hora}" no tiene un formato valido. ...\<close>;
  \<^item> \<open>FechaPasada\<close>: \<^verbatim>\<open>No se puede reservar un turno en el pasado. La fecha ${fecha} ya paso. ...\<close>;
  \<^item> \<open>FechaHoraPasada\<close>: \<^verbatim>\<open>... La fecha y hora ${fecha} ${hora} ya paso.\<close>;
  \<^item> \<open>SinDisponibilidad\<close>: \<^verbatim>\<open>Lo siento, no hay disponibilidad el ${fecha} a las ${hora}. ...\<close>;
  \<^item> \<open>TurnoReservado\<close>: \<^verbatim>\<open>Turno reservado con exito! ... el ${fecha} a las ${hora}. Tu ID de turno es: ${turno.id}.${mensajeEmail}\<close>;
  \<^item> \<open>ErrorAlReservar\<close>: \<^verbatim>\<open>Hubo un error al reservar el turno: ${error.message}\<close>;
  \<^item> \<open>SinTurnos\<close>: \<^verbatim>\<open>No hay turnos reservados entre el ${fechaDesde} y el ${fechaHasta}.\<close>;
  \<^item> \<open>HayTurnos\<close>: \<^verbatim>\<open>Hay ${turnos.length} turno(s) reservado(s) entre el ${fechaDesde} y el ${fechaHasta}:\<close>;
  \<^item> \<open>TurnoCancelado\<close>: \<^verbatim>\<open>Turno cancelado exitosamente. El turno del ${turno.fecha} a las ${turno.hora} ha sido cancelado.\<close>;
  \<^item> \<open>NoSePudoCancelar\<close>: \<^verbatim>\<open>No se pudo cancelar el turno: ${error.message}. Verifica que el ID del turno sea correcto.\<close>
\<close>

datatype mensaje =
    FormatoFechaInvalido string
  | FormatoFechaInvalidoLista string
  | FormatoHoraInvalido string
  | FechaPasada string
  | FechaHoraPasada string string
  | SinDisponibilidad string string
  | TurnoReservado string string string string
  | ErrorAlReservar string
  | SinTurnos string string
  | HayTurnos nat string string
  | TurnoCancelado pg_date pg_time
  | NoSePudoCancelar string

record respuesta =
  mensaje :: mensaje

text \<open>The result of \<^verbatim>\<open>reservarTurno\<close> and of \<^verbatim>\<open>cancelarTurno\<close> (which has no \<^verbatim>\<open>turno\<close>).\<close>

record resultado = respuesta +
  exito :: bool
  turno :: "(string \<times> pg_date \<times> pg_time) option"


definition fallo :: "mensaje \<Rightarrow> resultado" where
  "fallo m = \<lparr>mensaje = m, exito = False, turno = None\<rparr>"

text \<open>\<^verbatim>\<open>mensajeEmail\<close> when the mail was sent; it is the empty string otherwise.\<close>

definition email_enviado :: string where
  "email_enviado =
     '' Se envi'' @ [CHR 0xC3, CHR 0xB3] @ '' un email de confirmaci'' @ [CHR 0xC3, CHR 0xB3]
       @ ''n a tu correo.''"

text \<open>The result of a reservation that was made.\<close>

definition reservado :: "string \<Rightarrow> string \<Rightarrow> Turno \<Rightarrow> string \<Rightarrow> resultado" where
  "reservado f h t mensajeEmail =
     \<lparr>mensaje = TurnoReservado f h (id_turno t) mensajeEmail, exito = True,
      turno = Some (id_turno t, fecha t, hora t)\<rparr>"

text \<open>
  \<^verbatim>\<open>toolReservarTurno.execute\<close>, in the three stretches between which it waits for
  the store. First the validations, which touch nothing (the business-hours test that
  follows them only writes to the console and is left out).
\<close>

definition reservar_validaciones :: "entorno \<Rightarrow> string \<Rightarrow> string \<Rightarrow> resultado option" where
  "reservar_validaciones env f h =
     (if \<not> validarFormatoFecha f then Some (fallo (FormatoFechaInvalido f))
      else if \<not> validarFormatoHora h then Some (fallo (FormatoHoraInvalido h))
      else if \<not> validarFechaFutura env f then Some (fallo (FechaPasada f))
      else if \<not> validarFechaHoraFutura env f h then Some (fallo (FechaHoraPasada f h))
      else None)"

text \<open>
  Then \<^verbatim>\<open>verificarDisponibilidad\<close>, outside the \<^verbatim>\<open>try\<close>: its error leaves the tool
  as an exception. \<open>None\<close> means that the tool goes on to create the turno.
\<close>

definition reservar_verificar :: "string \<Rightarrow> string \<Rightarrow> mundo \<Rightarrow> resultado promesa option \<times> mundo" where
  "reservar_verificar f h w =
     (case verificarDisponibilidad f h w of
        (Inl m, w') \<Rightarrow> (Some (Inl m), w')
      | (Inr disponible, w') \<Rightarrow>
          (if \<not> disponible then (Some (Inr (fallo (SinDisponibilidad f h))), w')
           else (None, w')))"

text \<open>
  Then the \<^verbatim>\<open>try\<close> block: \<^verbatim>\<open>crearTurno\<close>, the confirmation mail, the result; the
  \<^verbatim>\<open>catch\<close> turns every error into a result. (Reading \<^verbatim>\<open>turno.id\<close> of a null
  \<^verbatim>\<open>data\<close> would throw a TypeError into the same \<^verbatim>\<open>catch\<close>.)
\<close>

definition TypeError_id :: string where
  "TypeError_id = ''Cannot read properties of null (reading '' @ [CHR 0x27] @ ''id'' @ [CHR 0x27] @ '')''"

definition reservar_crear :: "entorno \<Rightarrow> string \<Rightarrow> string \<Rightarrow> string \<Rightarrow> string \<Rightarrow> mundo \<Rightarrow> resultado \<times> mundo" where
  "reservar_crear env f h nombre correo w =
     (case crearTurno env \<lparr>NuevoTurno.fecha = f, hora = h, nombre_cliente = nombre,
                            email = correo, estado = Some confirmado\<rparr> w of
        (Inl m, w') \<Rightarrow> (fallo (ErrorAlReservar m), w')
      | (Inr None, w') \<Rightarrow> (fallo (ErrorAlReservar TypeError_id), w')
      | (Inr (Some t), w') \<Rightarrow>
          (let emailEnviado = enviarEmailConfirmacion env correo nombre f h (id_turno t);
               mensajeEmail = (if emailEnviado then email_enviado else [])
           in (reservado f h t mensajeEmail, w')))"

definition toolReservarTurno_execute :: "entorno \<Rightarrow> string \<Rightarrow> string \<Rightarrow> string \<Rightarrow> string \<Rightarrow> mundo \<Rightarrow> resultado promesa \<times> mundo" where
  "toolReservarTurno_execute env f h nombre correo w =
     (case reservar_validaciones env f h of
        Some r \<Rightarrow> (Inr r, w)
      | None \<Rightarrow>
          (case reservar_verificar f h w of
             (Some r, w') \<Rightarrow> (r, w')
           | (None, w') \<Rightarrow>
               (let (r, w'') = reservar_crear env f h nombre correo w' in (Inr r, w''))))"

text \<open>\<^verbatim>\<open>a || b\<close> on an optional string: \<open>b\<close> when \<open>a\<close> is absent or empty.\<close>

definition o_bien :: "string option \<Rightarrow> string \<Rightarrow> string" where
  "o_bien a b = (case filtro a of None \<Rightarrow> b | Some s \<Rightarrow> s)"



text \<open>\<^verbatim>\<open>args.x && !validarFormatoFecha(args.x)\<close>: the offending string, if the test holds.\<close>

definition formato_invalido :: "string option \<Rightarrow> string option" where
  "formato_invalido a =
     (case filtro a of
        None \<Rightarrow> None
      | Some s \<Rightarrow> if \<not> validarFormatoFecha s then Some s else None)"


text \<open>\<^verbatim>\<open>toolCancelarTurno.execute\<close>: the \<^verbatim>\<open>catch\<close> turns the error of \<^verbatim>\<open>cancelarTurno\<close> into a result.\<close>

definition toolCancelarTurno_execute :: "string \<Rightarrow> mundo \<Rightarrow> resultado \<times> mundo" where
  "toolCancelarTurno_execute turnoId w =
     (case cancelarTurno turnoId w of
        (Inr t, w') \<Rightarrow> (\<lparr>mensaje = TurnoCancelado (fecha t) (hora t), exito = True, turno = None\<rparr>, w')
      | (Inl m, w') \<Rightarrow> (fallo (NoSePudoCancelar m), w'))"

section \<open>Two reservations at once\<close>

text \<open>
  \<^verbatim>\<open>toolReservarTurno.execute\<close> gives up control twice, at \<^verbatim>\<open>await
  verificarDisponibilidad\<close> and at \<^verbatim>\<open>await crearTurno\<close>; each request is one atomic
  statement of the database. A call is therefore in one of three states, and one move
  takes it to the next request or to its result. (The mail is sent after the insert and
  does not touch the store; it is part of the second move.)
\<close>

datatype llamada = PorVerificar | PorCrear | Terminada "resultado promesa"

definition avanzar :: "entorno \<Rightarrow> string \<Rightarrow> string \<Rightarrow> string \<Rightarrow> string \<Rightarrow> llamada \<Rightarrow> mundo \<Rightarrow> llamada \<times> mundo" where
  "avanzar env f h nombre correo st w =
     (case st of
        PorVerificar \<Rightarrow>
          (case reservar_validaciones env f h of
             Some r \<Rightarrow> (Terminada (Inr r), w)
           | None \<Rightarrow>
               (case reservar_verificar f h w of
                  (Some r, w') \<Rightarrow> (Terminada r, w')
                | (None, w') \<Rightarrow> (PorCrear, w')))
      | PorCrear \<Rightarrow>
          (let (r, w') = reservar_crear env f h nombre correo w in (Terminada (Inr r), w'))
      | Terminada r \<Rightarrow> (Terminada r, w))"




section \<open>The formats in the words of the specification\<close>

definition es_digito :: "char \<Rightarrow> bool" where
  "es_digito c = (c \<in> set digitos)"

text \<open>Two-digit hour 00..23, a colon, two-digit minute 00..59.\<close>

fun hora_HH_MM :: "string \<Rightarrow> bool" where
  "hora_HH_MM [a, b, c, d, e] =
     (es_digito a \<and> es_digito b \<and> c = CHR '':'' \<and> es_digito d \<and> es_digito e
      \<and> numero [a, b] \<le> 23 \<and> numero [d, e] \<le> 59)"
| "hora_HH_MM s = False"

text \<open>One-digit hour 0..9, a colon, two-digit minute 00..59.\<close>

fun hora_H_MM :: "string \<Rightarrow> bool" where
  "hora_H_MM [b, c, d, e] =
     (es_digito b \<and> c = CHR '':'' \<and> es_digito d \<and> es_digito e \<and> numero [d, e] \<le> 59)"
| "hora_H_MM s = False"

section \<open>A concrete environment and store\<close>

text \<open>
  A server in the UTC zone at 2026-11-02 12:00, whose mail transport is down; the only
  date and time it is asked to read is 2099-06-01 14:00.
\<close>

definition entorno_ejemplo :: entorno where
  "entorno_ejemplo =
     \<lparr>Date_now = 1793620800000,
      Date_parse = (\<lambda>s. if s = ''2099-06-01T14:00'' then Some 4084005600000 else None),
      setHours_0 = (\<lambda>t. t - t mod 86400000),
      hoy_ISO = ''2026-11-02'',
      gen_random_uuid = ''123e4567-e89b-12d3-a456-426614174000'',
      NOW = 1793620800000,
      sendMail_ok = False\<rparr>"


definition mundo_vacio :: mundo where
  "mundo_vacio = \<lparr>tabla = [], accesos = []\<rparr>"

definition turno_ejemplo :: Turno where
  "turno_ejemplo =
     \<lparr>id_turno = ''123e4567-e89b-12d3-a456-426614174000'', fecha = (2099, 6, 1), hora = (14, 0),
      nombre_cliente = ''Ana Gomez'', email = ''ana@example.com'', estado = confirmado,
      created_at = 1793620800000\<rparr>"

section \<open>The matcher decides the words of an expression\<close>

lemma anulable_iff: "anulable r \<longleftrightarrow> [] \<in> lenguaje r"
  by (induction r) auto

lemma lenguaje_derivada: "lenguaje (derivada c r) = {w. c # w \<in> lenguaje r}"
proof (induction r)
  case (Sec r s)
  then show ?case
    by (auto simp: anulable_iff Cons_eq_append_conv)
qed auto

lemma test_iff: "test r s \<longleftrightarrow> s \<in> lenguaje r"
  by (induction s arbitrary: r) (simp_all add: anulable_iff lenguaje_derivada)

lemma Sec_Clase_Nil: "[] \<notin> lenguaje (Sec (Clase cs) r)"
  by simp

lemma Sec_Clase_Cons:
  "c # w \<in> lenguaje (Sec (Clase cs) r) \<longleftrightarrow> c \<in> set cs \<and> w \<in> lenguaje r"
proof
  assume "c # w \<in> lenguaje (Sec (Clase cs) r)"
  then show "c \<in> set cs \<and> w \<in> lenguaje r" by auto
next
  assume a: "c \<in> set cs \<and> w \<in> lenguaje r"
  then have "c # w = [c] @ w" and "[c] \<in> lenguaje (Clase cs)" by auto
  with a show "c # w \<in> lenguaje (Sec (Clase cs) r)"
    unfolding lenguaje.simps(4) by blast
qed

lemma Sec_Alt: "lenguaje (Sec (Alt a b) r) = lenguaje (Sec a r) \<union> lenguaje (Sec b r)"
  by auto

lemma Sec_Sec: "lenguaje (Sec (Sec a b) r) = lenguaje (Sec a (Sec b r))"
  by auto (metis append.assoc)+

lemma Sec_Opc: "lenguaje (Sec (Opc a) r) = lenguaje r \<union> lenguaje (Sec a r)"
  by auto

lemma Clase_Nil: "[] \<notin> lenguaje (Clase cs)"
  by simp

lemma Clase_Cons: "c # w \<in> lenguaje (Clase cs) \<longleftrightarrow> c \<in> set cs \<and> w = []"
  by auto

lemmas lenguaje_sec = Sec_Clase_Nil Sec_Clase_Cons Sec_Alt Sec_Sec Sec_Opc Clase_Nil Clase_Cons

section \<open>validarFormatoHora\<close>

lemma numero2: "numero [a, b] = 10 * valor_digito a + valor_digito b"
  by (simp add: numero_def)

lemma digito_cases: "es_digito c \<longleftrightarrow> c \<in> set ''0123456789''"
  by (simp add: es_digito_def digitos_def)

lemma hora_hasta_23:
  "es_digito a \<Longrightarrow> es_digito b \<Longrightarrow>
   numero [a, b] \<le> 23 \<longleftrightarrow> (a \<in> set ''01'' \<or> a = CHR ''2'' \<and> b \<in> set ''0123'')"
  unfolding numero2 digito_cases valor_digito_def
  by (simp only: set_simps insert_iff empty_iff) (elim disjE; simp)

lemma minuto_hasta_59:
  "es_digito d \<Longrightarrow> es_digito e \<Longrightarrow> numero [d, e] \<le> 59 \<longleftrightarrow> d \<in> set ''012345''"
  unfolding numero2 digito_cases valor_digito_def
  by (simp only: set_simps insert_iff empty_iff) (elim disjE; simp)

lemma clases_de_digitos:
  "a \<in> set ''01'' \<Longrightarrow> es_digito a" "a = CHR ''2'' \<Longrightarrow> es_digito a"
  "b \<in> set ''0123'' \<Longrightarrow> es_digito b" "d \<in> set ''012345'' \<Longrightarrow> es_digito d"
  by (auto simp: digito_cases)

lemma regex_hora_cinco:
  "[a, b, c, d, e] \<in> lenguaje regex_hora \<longleftrightarrow>
     (a \<in> set ''01'' \<and> es_digito b \<or> a = CHR ''2'' \<and> b \<in> set ''0123'')
     \<and> c = CHR '':'' \<and> d \<in> set ''012345'' \<and> es_digito e"
  unfolding regex_hora_def es_digito_def by (simp only: lenguaje_sec Un_iff) (simp, blast)

lemma regex_hora_cuatro:
  "[b, c, d, e] \<in> lenguaje regex_hora \<longleftrightarrow>
     es_digito b \<and> c = CHR '':'' \<and> d \<in> set ''012345'' \<and> es_digito e"
  unfolding regex_hora_def es_digito_def by (simp only: lenguaje_sec Un_iff) simp

lemma hora_HH_MM_iff:
  "hora_HH_MM [a, b, c, d, e] \<longleftrightarrow> [a, b, c, d, e] \<in> lenguaje regex_hora"
  unfolding regex_hora_cinco hora_HH_MM.simps
  using hora_hasta_23[of a b] minuto_hasta_59[of d e] clases_de_digitos by blast

lemma hora_H_MM_iff: "hora_H_MM [b, c, d, e] \<longleftrightarrow> [b, c, d, e] \<in> lenguaje regex_hora"
  unfolding regex_hora_cuatro hora_H_MM.simps
  using minuto_hasta_59[of d e] clases_de_digitos by blast

lemma regex_hora_largo:
  "length s \<noteq> 4 \<Longrightarrow> length s \<noteq> 5 \<Longrightarrow> s \<notin> lenguaje regex_hora"
  unfolding regex_hora_def
  by (auto simp only: lenguaje_sec Un_iff lenguaje.simps) simp_all

lemma validarFormatoHora_iff: "validarFormatoHora s = (hora_HH_MM s \<or> hora_H_MM s)"
proof (cases "length s = 5 \<or> length s = 4")
  case True
  then show ?thesis
  proof
    assume "length s = 5"
    then obtain a b c d e where s: "s = [a, b, c, d, e]"
      by (auto simp: length_Suc_conv eval_nat_numeral)
    show ?thesis
      unfolding validarFormatoHora_def test_iff s hora_HH_MM_iff by simp
  next
    assume "length s = 4"
    then obtain b c d e where s: "s = [b, c, d, e]"
      by (auto simp: length_Suc_conv eval_nat_numeral)
    show ?thesis
      unfolding validarFormatoHora_def test_iff s hora_H_MM_iff by simp
  qed
next
  case False
  then have "s \<notin> lenguaje regex_hora" by (simp add: regex_hora_largo)
  moreover from False have "\<not> hora_HH_MM s" "\<not> hora_H_MM s"
    by (induction s rule: hora_HH_MM.induct; simp)+
  ultimately show ?thesis
    by (simp add: validarFormatoHora_def test_iff)
qed

lemmas evaluar_hora = validarFormatoHora_def regex_hora_def digitos_def

text \<open>
  C3 (as the code has it). \<^verbatim>\<open>validarFormatoHora\<close> accepts exactly the 24-hour times
  with a two-digit minute 00..59 and an hour 0..23 written with one or two digits: the
  leading zero of the hour is optional. It rejects 24:00 and accepts 23:59 and 9:30.
\<close>

theorem validarFormatoHora_acepta:
  "validarFormatoHora s = (hora_HH_MM s \<or> hora_H_MM s)
   \<and> validarFormatoHora ''24:00'' = False
   \<and> validarFormatoHora ''23:59'' = True
   \<and> validarFormatoHora ''9:30'' = True"
  using validarFormatoHora_iff[of s] by (simp add: evaluar_hora)

text \<open>
  C3 as the specification states it fails: 9:30 is not of the zero-padded form HH:MM,
  and the validator accepts it.
\<close>

theorem validarFormatoHora_sin_cero_counterexample:
  "validarFormatoHora ''9:30'' \<and> \<not> hora_HH_MM ''9:30''"
  by (simp add: evaluar_hora)

section \<open>validarFormatoFecha\<close>

lemma validarFormatoFecha_iff:
  "validarFormatoFecha s \<longleftrightarrow>
     test regex_fecha s
     \<and> 1 \<le> numero (take 2 (drop 5 s)) \<and> numero (take 2 (drop 5 s)) \<le> 12
     \<and> 1 \<le> numero (take 2 (drop 8 s)) \<and> numero (take 2 (drop 8 s)) \<le> 31"
  by (simp add: validarFormatoFecha_def Date_parse_fecha_def Let_def)

lemma dias_del_mes_hasta_31: "dias_del_mes y m \<le> 31"
  by (simp add: dias_del_mes_def)

lemma fecha_real_es_valida: "fecha_real s \<Longrightarrow> validarFormatoFecha s"
  using dias_del_mes_hasta_31[of "numero (take 4 s)" "numero (take 2 (drop 5 s))"]
  by (auto simp: validarFormatoFecha_iff fecha_real_def Let_def)

text \<open>
  C4 at the input 2024-02-30: the string has the form YYYY-MM-DD and names no calendar
  day (February 2024 has 29 days), and \<^verbatim>\<open>validarFormatoFecha\<close> returns true, because
  the date constructor rolls the day over to 2024-03-01 instead of giving the Invalid
  Date.
\<close>

theorem validarFormatoFecha_30_de_febrero:
  "validarFormatoFecha ''2024-02-30'' = True
   \<and> fecha_real ''2024-02-30'' = False
   \<and> Date_parse_fecha ''2024-02-30'' = Date_parse_fecha ''2024-03-01''"
  by code_simp

section \<open>The store\<close>

lemma tabla_anotar [simp]: "tabla (anotar q w) = tabla w"
  by (simp add: anotar_def)

lemma accesos_anotar [simp]: "accesos (anotar q w) = accesos w @ [q]"
  by (simp add: anotar_def)

lemma respuesta_ok_campos [simp]:
  "data (respuesta_ok x) = Some x" "error (respuesta_ok x) = None"
  by (simp_all add: respuesta_ok_def)

lemma respuesta_error_campos [simp]:
  "data (respuesta_error e) = None" "error (respuesta_error e) = Some e"
  by (simp_all add: respuesta_error_def)

lemma fallo_campos [simp]:
  "exito (fallo m) = False" "mensaje (fallo m) = m" "turno (fallo m) = None"
  by (simp_all add: fallo_def)

section \<open>Validation failures of reservarTurno\<close>

lemma reservar_validaciones_Some:
  assumes "\<not> validarFormatoFecha f \<or> \<not> validarFormatoHora h
           \<or> \<not> validarFechaFutura env f \<or> \<not> validarFechaHoraFutura env f h"
  shows "\<exists>m. reservar_validaciones env f h = Some (fallo m)
             \<and> m \<in> {FormatoFechaInvalido f, FormatoHoraInvalido h, FechaPasada f, FechaHoraPasada f h}"
  using assms by (auto simp: reservar_validaciones_def)

lemma reservar_validaciones_None:
  "reservar_validaciones env f h = None \<longleftrightarrow>
     validarFormatoFecha f \<and> validarFormatoHora h
     \<and> validarFechaFutura env f \<and> validarFechaHoraFutura env f h"
  by (simp add: reservar_validaciones_def)

text \<open>
  C8. When one of the four validations of \<^verbatim>\<open>reservarTurno\<close> fails (format of the
  date, format of the hour, date in the past, date and hour in the past), the call
  returns a result with \<^verbatim>\<open>exito: false\<close> and the message of that validation; the
  result is the same whatever the store holds, and the world after the call is the world
  before it: no row has changed and no request has been sent.
\<close>

theorem reservar_invalido_no_toca_el_almacen:
  assumes "\<not> validarFormatoFecha f \<or> \<not> validarFormatoHora h
           \<or> \<not> validarFechaFutura env f \<or> \<not> validarFechaHoraFutura env f h"
  shows "\<exists>r. exito r = False \<and> turno r = None
             \<and> mensaje r \<in> {FormatoFechaInvalido f, FormatoHoraInvalido h,
                              FechaPasada f, FechaHoraPasada f h}
             \<and> (\<forall>nombre correo w. toolReservarTurno_execute env f h nombre correo w = (Inr r, w))"
proof -
  from reservar_validaciones_Some[OF assms] obtain m where
    m: "reservar_validaciones env f h = Some (fallo m)"
       "m \<in> {FormatoFechaInvalido f, FormatoHoraInvalido h, FechaPasada f, FechaHoraPasada f h}"
    by blast
  have "\<forall>nombre correo w. toolReservarTurno_execute env f h nombre correo w = (Inr (fallo m), w)"
    by (simp add: toolReservarTurno_execute_def m(1))
  with m(2) show ?thesis
    by (intro exI[of _ "fallo m"]) simp
qed

lemma fecha_2020_pasada: "\<not> validarFechaFutura entorno_ejemplo ''2020-01-01''"
  by code_simp

theorem reservar_invalido_no_toca_el_almacen_witness:
  "\<not> validarFechaFutura entorno_ejemplo ''2020-01-01''
   \<and> (\<exists>r. exito r = False
          \<and> toolReservarTurno_execute entorno_ejemplo ''2020-01-01'' ''10:00'' ''X'' ''x@x.com''
               mundo_vacio = (Inr r, mundo_vacio))"
proof -
  have h: "\<not> validarFormatoFecha ''2020-01-01'' \<or> \<not> validarFormatoHora ''10:00''
           \<or> \<not> validarFechaFutura entorno_ejemplo ''2020-01-01''
           \<or> \<not> validarFechaHoraFutura entorno_ejemplo ''2020-01-01'' ''10:00''"
    using fecha_2020_pasada by simp
  from reservar_invalido_no_toca_el_almacen[OF h] fecha_2020_pasada show ?thesis
    by blast
qed

section \<open>cancelarTurno\<close>

lemma filter_id_map_cancelado:
  "filter (\<lambda>u. id_turno u = x) (map (\<lambda>u. if id_turno u = x then u\<lparr>estado := cancelado\<rparr> else u) ts)
   = map (\<lambda>u. u\<lparr>estado := cancelado\<rparr>) (filter (\<lambda>u. id_turno u = x) ts)"
  by (induction ts) auto

lemma map_cancelado_idem:
  "map (\<lambda>u. if id_turno u = x then u\<lparr>estado := cancelado\<rparr> else u)
     (map (\<lambda>u. if id_turno u = x then u\<lparr>estado := cancelado\<rparr> else u) ts)
   = map (\<lambda>u. if id_turno u = x then u\<lparr>estado := cancelado\<rparr> else u) ts"
  by (induction ts) auto

lemma map_cancelado_ya_cancelado:
  assumes "filter (\<lambda>u. id_turno u = x) ts = [t]" and "estado t = cancelado"
  shows "map (\<lambda>u. if id_turno u = x then u\<lparr>estado := cancelado\<rparr> else u) ts = ts"
proof (rule map_idI)
  fix u assume u: "u \<in> set ts"
  show "(if id_turno u = x then u\<lparr>estado := cancelado\<rparr> else u) = u"
  proof (cases "id_turno u = x")
    case True
    with u have "u \<in> set (filter (\<lambda>u. id_turno u = x) ts)" by simp
    with assms have "u = t" "estado u = cancelado" by simp_all
    then show ?thesis by simp
  next
    case False
    then show ?thesis by simp
  qed
qed

lemma cancelar_fila_unica:
  assumes "filter (\<lambda>u. id_turno u = x) (tabla w) = [t]"
  shows "toolCancelarTurno_execute x w =
           (\<lparr>mensaje = TurnoCancelado (fecha t) (hora t), exito = True, turno = None\<rparr>,
            (anotar Update w)\<lparr>tabla := map (\<lambda>u. if id_turno u = x then u\<lparr>estado := cancelado\<rparr> else u)
                                         (tabla w)\<rparr>)"
  using assms
  by (simp add: toolCancelarTurno_execute_def cancelarTurno_def pg_update_cancelado_def
      cancelarTurno_respuesta_def)

lemma anotar_misma_tabla: "(anotar q w)\<lparr>tabla := tabla w\<rparr> = anotar q w"
  by (simp add: anotar_def)

text \<open>
  C5. For an id that is stored (the primary key gives exactly one row with it): when the
  row is already cancelled, \<^verbatim>\<open>cancelarTurno\<close> succeeds again, with the same message,
  and leaves every row as it was; and whatever the state of the row, cancelling a second
  time succeeds with the same result as the first time and leaves the table that the
  first cancellation left.
\<close>

theorem cancelar_un_turno_cancelado:
  assumes "filter (\<lambda>u. id_turno u = x) (tabla w) = [t]"
  shows "(estado t = cancelado \<longrightarrow>
            toolCancelarTurno_execute x w =
              (\<lparr>mensaje = TurnoCancelado (fecha t) (hora t), exito = True, turno = None\<rparr>,
               anotar Update w))
         \<and> (let (r1, w1) = toolCancelarTurno_execute x w;
                (r2, w2) = toolCancelarTurno_execute x w1
            in exito r1 \<and> exito r2 \<and> r2 = r1 \<and> tabla w2 = tabla w1
               \<and> filter (\<lambda>u. id_turno u = x) (tabla w1) = [t\<lparr>estado := cancelado\<rparr>])"
proof
  show "estado t = cancelado \<longrightarrow>
          toolCancelarTurno_execute x w =
            (\<lparr>mensaje = TurnoCancelado (fecha t) (hora t), exito = True, turno = None\<rparr>,
             anotar Update w)"
    using cancelar_fila_unica[OF assms] map_cancelado_ya_cancelado[OF assms]
    by (simp add: anotar_misma_tabla)
next
  let ?w1 = "(anotar Update w)\<lparr>tabla := map (\<lambda>u. if id_turno u = x then u\<lparr>estado := cancelado\<rparr> else u)
                                           (tabla w)\<rparr>"
  have f1: "filter (\<lambda>u. id_turno u = x) (tabla ?w1) = [t\<lparr>estado := cancelado\<rparr>]"
    using assms by (simp add: filter_id_map_cancelado)
  show "let (r1, w1) = toolCancelarTurno_execute x w;
            (r2, w2) = toolCancelarTurno_execute x w1
        in exito r1 \<and> exito r2 \<and> r2 = r1 \<and> tabla w2 = tabla w1
           \<and> filter (\<lambda>u. id_turno u = x) (tabla w1) = [t\<lparr>estado := cancelado\<rparr>]"
    unfolding cancelar_fila_unica[OF assms] Let_def prod.case cancelar_fila_unica[OF f1]
    using f1 by (simp add: map_cancelado_idem)
qed

theorem cancelar_un_turno_cancelado_witness:
  "filter (\<lambda>u. id_turno u = ''123e4567-e89b-12d3-a456-426614174000'')
      (tabla \<lparr>tabla = [turno_ejemplo\<lparr>estado := cancelado\<rparr>], accesos = []\<rparr>)
     = [turno_ejemplo\<lparr>estado := cancelado\<rparr>]
   \<and> estado (turno_ejemplo\<lparr>estado := cancelado\<rparr>) = cancelado
   \<and> toolCancelarTurno_execute ''123e4567-e89b-12d3-a456-426614174000''
        \<lparr>tabla = [turno_ejemplo\<lparr>estado := cancelado\<rparr>], accesos = []\<rparr>
     = (\<lparr>mensaje = TurnoCancelado (2099, 6, 1) (14, 0), exito = True, turno = None\<rparr>,
        \<lparr>tabla = [turno_ejemplo\<lparr>estado := cancelado\<rparr>], accesos = [Update]\<rparr>)"
proof -
  have h: "filter (\<lambda>u. id_turno u = ''123e4567-e89b-12d3-a456-426614174000'')
             (tabla \<lparr>tabla = [turno_ejemplo\<lparr>estado := cancelado\<rparr>], accesos = []\<rparr>)
           = [turno_ejemplo\<lparr>estado := cancelado\<rparr>]"
    by (simp add: turno_ejemplo_def)
  from cancelar_un_turno_cancelado[OF h] h show ?thesis
    by (simp add: turno_ejemplo_def anotar_def)
qed



section \<open>obtenerTurnoPorId\<close>



section \<open>listarTurnos without arguments\<close>



lemma sin_argumentos [simp]:
  "filtro None = None" "formato_invalido None = None" "o_bien None b = b"
  by (simp_all add: filtro_def formato_invalido_def o_bien_def)




lemma set_ordenar [simp]: "set (ordenar ts) = set ts"
  by (simp add: ordenar_def)

lemma length_ordenar [simp]: "length (ordenar ts) = length ts"
  by (simp add: ordenar_def)

lemma ordenar_Nil [simp]: "ordenar ts = [] \<longleftrightarrow> ts = []"
  using length_ordenar[of ts] by (metis length_0_conv)






section \<open>The two requests of reservarTurno\<close>

lemma time_in_de_validar: "validarFormatoHora h \<Longrightarrow> \<exists>t. time_in h = Some t"
  by (simp add: validarFormatoHora_def time_in_def)

lemma verificar_libre:
  assumes "date_in f = Some d" and "time_in h = Some t"
    and "confirmados_en (tabla w) d t = []"
  shows "reservar_verificar f h w = (None, anotar Select w)"
  using assms
  by (simp add: reservar_verificar_def verificarDisponibilidad_def pg_select_confirmado_def)


lemma crearTurno_libre:
  assumes "date_in f = Some d" and "time_in h = Some t"
    and "confirmados_en (tabla w) d t = []"
    and "gen_random_uuid env \<notin> set (map id_turno (tabla w))"
  shows "crearTurno env \<lparr>NuevoTurno.fecha = f, hora = h, nombre_cliente = nombre,
                          email = correo, estado = Some confirmado\<rparr> w =
           (Inr (Some (fila_nueva env d t nombre correo confirmado)),
            (anotar Insert w)\<lparr>tabla := tabla w @ [fila_nueva env d t nombre correo confirmado]\<rparr>)"
  using assms by (simp add: crearTurno_def pg_insert_def Let_def)




section \<open>The confirmation mail\<close>

text \<open>
  C9 (as the code has it). When the validations pass, the slot is found free, the insert
  succeeds and the mail transport fails, \<^verbatim>\<open>reservarTurno\<close> returns
  \<^verbatim>\<open>exito: true\<close> with the turno. The failure of the mail is swallowed:
  \<^verbatim>\<open>mensajeEmail\<close> is the empty string, so the message is the plain confirmation, and
  the result has no other field that could carry a warning.
\<close>

theorem reservar_con_email_fallido:
  assumes "reservar_validaciones env f h = None"
    and "reservar_verificar f h w = (None, w1)"
    and "crearTurno env \<lparr>NuevoTurno.fecha = f, hora = h, nombre_cliente = nombre,
                           email = correo, estado = Some confirmado\<rparr> w1 = (Inr (Some t), w2)"
    and "\<not> sendMail_ok env"
  shows "toolReservarTurno_execute env f h nombre correo w =
           (Inr \<lparr>mensaje = TurnoReservado f h (id_turno t) [], exito = True,
                 turno = Some (id_turno t, fecha t, hora t)\<rparr>, w2)"
  using assms
  by (simp add: toolReservarTurno_execute_def reservar_crear_def enviarEmailConfirmacion_def
      reservado_def)

lemma ejemplo_valido: "reservar_validaciones entorno_ejemplo ''2099-06-01'' ''14:00'' = None"
  by code_simp


lemma ejemplo_fecha: "date_in ''2099-06-01'' = Some (2099, 6, 1)"
  by code_simp

lemma ejemplo_hora: "time_in ''14:00'' = Some (14, 0)"
  by code_simp

theorem reservar_con_email_fallido_witness:
  "reservar_validaciones entorno_ejemplo ''2099-06-01'' ''14:00'' = None
   \<and> \<not> sendMail_ok entorno_ejemplo
   \<and> toolReservarTurno_execute entorno_ejemplo ''2099-06-01'' ''14:00'' ''Ana Gomez''
        ''ana@example.com'' mundo_vacio =
       (Inr \<lparr>mensaje = TurnoReservado ''2099-06-01'' ''14:00''
                          ''123e4567-e89b-12d3-a456-426614174000'' [],
             exito = True,
             turno = Some (''123e4567-e89b-12d3-a456-426614174000'', (2099, 6, 1), (14, 0))\<rparr>,
        \<lparr>tabla = [turno_ejemplo], accesos = [Select, Insert]\<rparr>)"
proof -
  have libre: "confirmados_en (tabla mundo_vacio) (2099, 6, 1) (14, 0) = []"
    by (simp add: mundo_vacio_def confirmados_en_def)
  have h2: "reservar_verificar ''2099-06-01'' ''14:00'' mundo_vacio = (None, anotar Select mundo_vacio)"
    by (rule verificar_libre[OF ejemplo_fecha ejemplo_hora libre])
  have h3: "crearTurno entorno_ejemplo
              \<lparr>NuevoTurno.fecha = ''2099-06-01'', hora = ''14:00'', nombre_cliente = ''Ana Gomez'',
               email = ''ana@example.com'', estado = Some confirmado\<rparr> (anotar Select mundo_vacio)
            = (Inr (Some turno_ejemplo), \<lparr>tabla = [turno_ejemplo], accesos = [Select, Insert]\<rparr>)"
    by (subst crearTurno_libre[OF ejemplo_fecha ejemplo_hora])
       (simp_all add: mundo_vacio_def confirmados_en_def fila_nueva_def turno_ejemplo_def
          entorno_ejemplo_def anotar_def)
  have h4: "\<not> sendMail_ok entorno_ejemplo"
    by (simp add: entorno_ejemplo_def)
  from reservar_con_email_fallido[OF ejemplo_valido h2 h3 h4] ejemplo_valido h4
  show ?thesis
    by (simp add: turno_ejemplo_def)
qed

text \<open>
  C9 as the specification states it fails on the words "reported as a soft warning inside
  the success result": with the mail transport down, the result of a successful
  reservation is the plain confirmation, its \<^verbatim>\<open>mensajeEmail\<close> part is empty, and it is
  the result of the same call with a working transport minus the sentence that a mail
  was sent.
\<close>

theorem reservar_sin_aviso_counterexample:
  "fst (toolReservarTurno_execute entorno_ejemplo ''2099-06-01'' ''14:00'' ''Ana Gomez''
          ''ana@example.com'' mundo_vacio) =
     Inr (reservado ''2099-06-01'' ''14:00'' turno_ejemplo [])
   \<and> fst (toolReservarTurno_execute (entorno_ejemplo\<lparr>sendMail_ok := True\<rparr>) ''2099-06-01''
            ''14:00'' ''Ana Gomez'' ''ana@example.com'' mundo_vacio) =
     Inr (reservado ''2099-06-01'' ''14:00'' turno_ejemplo email_enviado)"
  by code_simp

section \<open>The availability check and the insert\<close>




section \<open>Two reservations of one slot at once\<close>

text \<open>One call alone: its two moves are \<^verbatim>\<open>toolReservarTurno.execute\<close>.\<close>

lemma avanzar_dos_veces:
  "(case avanzar env f h nombre correo PorVerificar w of
      (st, w1) \<Rightarrow> avanzar env f h nombre correo st w1) =
   (case toolReservarTurno_execute env f h nombre correo w of
      (r, w2) \<Rightarrow> (Terminada r, w2))"
  by (simp add: avanzar_def toolReservarTurno_execute_def
      split: option.splits prod.splits)





lemma avanzar_Terminada [simp]: "avanzar env f h nombre correo (Terminada r) w = (Terminada r, w)"
  by (simp add: avanzar_def)

lemma confirmados_en_nueva [simp]:
  "confirmados_en (ts @ [fila_nueva env d t nombre correo confirmado]) d t =
     confirmados_en ts d t @ [fila_nueva env d t nombre correo confirmado]"
  by (simp add: confirmados_en_def fila_nueva_def)

lemma id_fila_nueva [simp]: "id_turno (fila_nueva env d t nombre correo est) = gen_random_uuid env"
  by (simp add: fila_nueva_def)

lemma exito_reservado [simp]:
  "exito (reservado f h fila m) = True"
  by (simp add: reservado_def)





end
